theory Spec2Isabelle
  imports Complex_Main
begin

section \<open>Python values the client works on\<close>

text \<open>
  The client of \<^verbatim>\<open>docusign_alternative_sdk/client.py\<close> handles strings, optional
  values, plain dictionaries and the case-insensitive header dictionary of a
  \<^verbatim>\<open>requests.Session\<close>. Python's truth test on an optional string is false for
  \<^verbatim>\<open>None\<close> and for the empty string; on an optional object it is false for \<^verbatim>\<open>None\<close>;
  on an optional dictionary it is false for \<^verbatim>\<open>None\<close> and for the empty dictionary.
\<close>

definition truthy_str :: "string option \<Rightarrow> bool" where
  "truthy_str s = (case s of None \<Rightarrow> False | Some x \<Rightarrow> x \<noteq> [])"

definition truthy_obj :: "'a option \<Rightarrow> bool" where
  "truthy_obj x = (case x of None \<Rightarrow> False | Some _ \<Rightarrow> True)"

definition truthy_dict :: "('k \<times> 'v) list option \<Rightarrow> bool" where
  "truthy_dict d = (case d of None \<Rightarrow> False | Some kvs \<Rightarrow> kvs \<noteq> [])"

text \<open>\<^verbatim>\<open>str.lower\<close> and \<^verbatim>\<open>str.upper\<close> on the ASCII letters of header names and methods.\<close>

definition lower_char :: "char \<Rightarrow> char" where
  "lower_char c =
     (case map_of (zip ''ABCDEFGHIJKLMNOPQRSTUVWXYZ'' ''abcdefghijklmnopqrstuvwxyz'') c of
        None \<Rightarrow> c | Some l \<Rightarrow> l)"

definition upper_char :: "char \<Rightarrow> char" where
  "upper_char c =
     (case map_of (zip ''abcdefghijklmnopqrstuvwxyz'' ''ABCDEFGHIJKLMNOPQRSTUVWXYZ'') c of
        None \<Rightarrow> c | Some u \<Rightarrow> u)"

definition lower :: "string \<Rightarrow> string" where
  "lower s = map lower_char s"

definition upper :: "string \<Rightarrow> string" where
  "upper s = map upper_char s"

text \<open>\<^verbatim>\<open>s.rstrip('/')\<close> and \<^verbatim>\<open>s.lstrip('/')\<close>: every trailing (leading) copy of the
  character is removed.\<close>

definition lstrip :: "char \<Rightarrow> string \<Rightarrow> string" where
  "lstrip c s = dropWhile (\<lambda>x. x = c) s"

definition rstrip :: "char \<Rightarrow> string \<Rightarrow> string" where
  "rstrip c s = rev (dropWhile (\<lambda>x. x = c) (rev s))"

definition starts_with :: "char \<Rightarrow> string \<Rightarrow> bool" where
  "starts_with c s = (case s of [] \<Rightarrow> False | x # _ \<Rightarrow> x = c)"

definition ends_with :: "char \<Rightarrow> string \<Rightarrow> bool" where
  "ends_with c s = starts_with c (rev s)"

subsection \<open>Plain dictionaries\<close>

text \<open>
  A plain \<^verbatim>\<open>dict\<close> with string keys is an association list in insertion order.
  \<^verbatim>\<open>d[k] = v\<close> replaces the value of a key in place or appends the pair,
  \<^verbatim>\<open>d.update(other)\<close> stores the pairs of \<^verbatim>\<open>other\<close> in order, \<^verbatim>\<open>del d[k]\<close> removes
  the key, \<^verbatim>\<open>k in d\<close> is an exact (case-sensitive) comparison of keys.
\<close>

type_synonym 'v pydict = "(string \<times> 'v) list"

fun dict_set :: "'v pydict \<Rightarrow> string \<Rightarrow> 'v \<Rightarrow> 'v pydict" where
  "dict_set [] k v = [(k, v)]"
| "dict_set ((k', v') # d) k v = (if k' = k then (k, v) # d else (k', v') # dict_set d k v)"

definition dict_update :: "'v pydict \<Rightarrow> 'v pydict \<Rightarrow> 'v pydict" where
  "dict_update d other = fold (\<lambda>(k, v) acc. dict_set acc k v) other d"

definition dict_contains :: "'v pydict \<Rightarrow> string \<Rightarrow> bool" where
  "dict_contains d k = (map_of d k \<noteq> None)"

definition dict_del :: "'v pydict \<Rightarrow> string \<Rightarrow> 'v pydict" where
  "dict_del d k = filter (\<lambda>(k', _). k' \<noteq> k) d"

definition dict_get :: "'v pydict \<Rightarrow> string option \<Rightarrow> 'v \<Rightarrow> 'v" where
  \<comment> \<open>\<^verbatim>\<open>d.get(key, default)\<close>, where the key may be \<^verbatim>\<open>None\<close> (never a key of these tables)\<close>
  "dict_get d key dflt =
     (case key of None \<Rightarrow> dflt
      | Some k \<Rightarrow> (case map_of d k of None \<Rightarrow> dflt | Some v \<Rightarrow> v))"

subsection \<open>The case-insensitive dictionary of \<^verbatim>\<open>requests\<close>\<close>

text \<open>
  \<^verbatim>\<open>requests.structures.CaseInsensitiveDict\<close> keeps, under the lower-cased key, the
  key as it was last set together with the value. Session headers and response
  headers are of this class.
\<close>

type_synonym ci_dict = "string \<rightharpoonup> (string \<times> string)"

definition ci_set :: "ci_dict \<Rightarrow> string \<Rightarrow> string \<Rightarrow> ci_dict" where
  "ci_set m k v = m(lower k \<mapsto> (k, v))"

definition ci_del :: "ci_dict \<Rightarrow> string \<Rightarrow> ci_dict" where
  "ci_del m k = m(lower k := None)"

definition ci_contains :: "ci_dict \<Rightarrow> string \<Rightarrow> bool" where
  "ci_contains m k = (m (lower k) \<noteq> None)"

definition ci_get :: "ci_dict \<Rightarrow> string \<Rightarrow> string option" where
  "ci_get m k = map_option snd (m (lower k))"

definition ci_update :: "ci_dict \<Rightarrow> string pydict \<Rightarrow> ci_dict" where
  "ci_update m kvs = fold (\<lambda>(k, v) acc. ci_set acc k v) kvs m"

section \<open>Configuration and errors\<close>

text \<open>
  \<^verbatim>\<open>SDKConfiguration\<close> is declared in \<^verbatim>\<open>config.py\<close>; the client reads the fields below.
  The OAuth object is only tested for presence, so its content stays opaque. The
  JWT object is read for its \<^verbatim>\<open>token\<close>.
\<close>

typedecl oauth_config

record jwt_config =
  token :: "string option"

record sdk_configuration =
  api_key :: "string option"
  oauth :: "oauth_config option"
  jwt :: "jwt_config option"
  base_url :: "string option"
  environment :: "string option"
  timeout :: int
  retries :: int
  retry_delay :: int

text \<open>
  The exception classes the client raises: the kinds of \<^verbatim>\<open>exceptions.py\<close> (the last
  of them, \<open>PlatformError\<close>, stands for the base class \<^verbatim>\<open>DocuSignAlternativeError\<close>),
  and Python's own \<^verbatim>\<open>AttributeError\<close>, which a missing base URL produces.
\<close>

datatype error_kind =
    ConfigurationError | AuthenticationError | AuthorizationError | ValidationError
  | NotFoundError | ConflictError | RateLimitError | ServerError | PlatformError
  | NetworkError | TimeoutError | AttributeError

datatype sdk_error =
  SdkError (kind: error_kind) (message: string) (status: "int option") (request_id: "string option")

subsection \<open>\<^verbatim>\<open>_validate_config\<close>\<close>

definition production_url :: string where
  "production_url = ''https://api.docusign-alternative.com''"

definition base_urls :: "string pydict" where
  "base_urls =
     [(''development'', ''https://api-dev.docusign-alternative.com''),
      (''staging'', ''https://api-staging.docusign-alternative.com''),
      (''production'', production_url)]"

definition validate_config :: "sdk_configuration \<Rightarrow> sdk_error + sdk_configuration" where
  "validate_config config =
     (if \<not> truthy_str (api_key config) \<and> \<not> truthy_obj (oauth config) \<and> \<not> truthy_obj (jwt config)
      then Inl (SdkError ConfigurationError
                  ''API key, OAuth configuration, or JWT token is required'' None None)
      else if \<not> truthy_str (base_url config)
      then Inr (config\<lparr>base_url := Some (dict_get base_urls (environment config) production_url)\<rparr>)
      else Inr config)"

subsection \<open>The transport session\<close>

text \<open>
  The session is a \<^verbatim>\<open>requests.Session\<close>: of its state the client touches the default
  headers and the adapters mounted per URL prefix; an adapter is known by the
  \<^verbatim>\<open>urllib3\<close> retry policy it was built with. \<^verbatim>\<open>retry_delay / 1000\<close> and
  \<^verbatim>\<open>timeout / 1000\<close> are Python's true division, taken here over the rationals.
\<close>

record retry =
  total :: int
  backoff_factor :: rat
  status_forcelist :: "int list"
  allowed_methods :: "string list"

record session =
  headers :: ci_dict
  adapters :: "string \<rightharpoonup> retry"

record client =
  config :: sdk_configuration
  session :: session

definition fmt :: "string option \<Rightarrow> string" where
  \<comment> \<open>how an f-string renders an optional string\<close>
  "fmt s = (case s of None \<Rightarrow> ''None'' | Some x \<Rightarrow> x)"

definition jwt_token :: "jwt_config option \<Rightarrow> string option" where
  "jwt_token j = (case j of None \<Rightarrow> None | Some x \<Rightarrow> token x)"

text \<open>
  \<^verbatim>\<open>_create_session\<close>. The argument \<open>session0\<close> is the object \<^verbatim>\<open>requests.Session()\<close>
  returns, with the library's own default headers and adapters.
\<close>

definition create_session :: "session \<Rightarrow> sdk_configuration \<Rightarrow> session" where
  "create_session session0 cfg =
     (let hs = ci_update (headers session0)
                 [(''Content-Type'', ''application/json''),
                  (''User-Agent'', ''DocuSignAlternative-Python-SDK/1.0.0''),
                  (''Accept'', ''application/json'')];
          hs = (if truthy_str (api_key cfg)
                then ci_set hs ''Authorization'' (''Bearer '' @ fmt (api_key cfg))
                else if truthy_obj (jwt cfg) \<and> truthy_str (jwt_token (jwt cfg))
                then ci_set hs ''Authorization'' (''Bearer '' @ fmt (jwt_token (jwt cfg)))
                else hs);
          retry_strategy =
            \<lparr>total = retries cfg,
             backoff_factor = of_int (retry_delay cfg) / 1000,
             status_forcelist = [429, 500, 502, 503, 504],
             allowed_methods = [''HEAD'', ''GET'', ''PUT'', ''DELETE'', ''OPTIONS'', ''TRACE'', ''POST'']\<rparr>
      in \<lparr>headers = hs,
          adapters = (adapters session0)(''http://'' \<mapsto> retry_strategy, ''https://'' \<mapsto> retry_strategy)\<rparr>)"

text \<open>
  \<^verbatim>\<open>__init__\<close>: the configuration is validated first; the session is created only
  from a configuration that passed. The service facades built afterwards only keep a
  reference to the client.
\<close>

definition init :: "session \<Rightarrow> sdk_configuration \<Rightarrow> sdk_error + client" where
  "init session0 cfg =
     (case validate_config cfg of
        Inl e \<Rightarrow> Inl e
      | Inr cfg' \<Rightarrow> Inr \<lparr>config = cfg', session = create_session session0 cfg'\<rparr>)"

subsection \<open>Auth mutation\<close>

definition set_auth_token :: "client \<Rightarrow> string \<Rightarrow> client" where
  "set_auth_token c tok =
     c\<lparr>config := (config c)\<lparr>api_key := Some tok\<rparr>,
       session := (session c)\<lparr>headers := ci_set (headers (session c)) ''Authorization'' (''Bearer '' @ tok)\<rparr>\<rparr>"

definition clear_auth :: "client \<Rightarrow> client" where
  "clear_auth c =
     c\<lparr>config := (config c)\<lparr>api_key := None\<rparr>,
       session := (if ci_contains (headers (session c)) ''Authorization''
                   then (session c)\<lparr>headers := ci_del (headers (session c)) ''Authorization''\<rparr>
                   else session c)\<rparr>"

section \<open>The request pipeline\<close>

subsection \<open>Requests, responses and transport failures\<close>

datatype json =
  JNull | JBool bool | JNum int | JStr string | JArr "json list" | JObj "(string \<times> json) list"

datatype py_data = DataStr string | DataDict "string pydict"

text \<open>The keyword arguments of \<^verbatim>\<open>request\<close> next to the method and the URL.\<close>

record kwargs =
  data :: "py_data option"
  json :: "json option"
  params :: "string pydict option"
  headers_arg :: "string pydict option"
  files :: "string pydict option"

text \<open>
  What leaves the session for one call: the arguments of \<^verbatim>\<open>session.request\<close>, with the
  headers as the session merges them.
\<close>

record wire_request =
  w_method :: string
  w_url :: string
  w_data :: "py_data option"
  w_json :: "json option"
  w_params :: "string pydict option"
  w_headers :: ci_dict
  w_files :: "string pydict option"
  w_timeout :: rat

text \<open>
  A \<^verbatim>\<open>requests.Response\<close>: \<open>parsed_json\<close> is the value of \<^verbatim>\<open>response.json()\<close>, and
  \<open>None\<close> where that call raises \<^verbatim>\<open>ValueError\<close>.
\<close>

record response =
  status_code :: int
  resp_headers :: ci_dict
  resp_text :: string
  parsed_json :: "json option"

text \<open>
  \<^verbatim>\<open>Response.ok\<close> of the library is false exactly when \<^verbatim>\<open>raise_for_status\<close> would
  raise, that is for the status codes 400 to 599.
\<close>

definition ok :: "response \<Rightarrow> bool" where
  "ok r = (\<not> (400 \<le> status_code r \<and> status_code r < 600))"

text \<open>The exception classes of \<^verbatim>\<open>requests.exceptions\<close>, all below \<^verbatim>\<open>RequestException\<close>.\<close>

datatype requests_exception =
    RequestException | InvalidJSONError | HTTPError | ConnectionError | ProxyError | SSLError
  | Timeout | ConnectTimeout | ReadTimeout | URLRequired | TooManyRedirects | MissingSchema
  | InvalidSchema | InvalidURL | InvalidHeader | InvalidProxyURL | ChunkedEncodingError
  | ContentDecodingError | StreamConsumedError | RetryError | UnrewindableBodyError

fun isinstance_Timeout :: "requests_exception \<Rightarrow> bool" where
  "isinstance_Timeout Timeout = True"
| "isinstance_Timeout ConnectTimeout = True"
| "isinstance_Timeout ReadTimeout = True"
| "isinstance_Timeout _ = False"

fun isinstance_ConnectionError :: "requests_exception \<Rightarrow> bool" where
  "isinstance_ConnectionError ConnectionError = True"
| "isinstance_ConnectionError ProxyError = True"
| "isinstance_ConnectionError SSLError = True"
| "isinstance_ConnectionError ConnectTimeout = True"
| "isinstance_ConnectionError _ = False"

text \<open>
  The outcome of \<^verbatim>\<open>session.request\<close>, retries of the adapter included: a response, or
  an exception of the library with its description \<^verbatim>\<open>str(e)\<close>.
\<close>

datatype transport_outcome = Responded response | Failed requests_exception string

subsection \<open>Error taxonomy\<close>

text \<open>
  Modelled from the spec: \<^verbatim>\<open>create_error_from_response\<close> is imported from
  \<^verbatim>\<open>exceptions.py\<close>, which is not among the sources. Section 4.4 of the specification
  gives its mapping from the status code to the kind of error, and says that the
  message is the \<^verbatim>\<open>message\<close> field of the parsed body, falling back to a generic
  description (the parameter \<open>generic\<close>), and that the error carries the status code
  and the request id if present.
\<close>

definition kind_of_status :: "int \<Rightarrow> error_kind" where
  "kind_of_status s =
     (if s = 401 then AuthenticationError
      else if s = 403 then AuthorizationError
      else if s = 400 \<or> s = 422 then ValidationError
      else if s = 404 then NotFoundError
      else if s = 409 then ConflictError
      else if s = 429 then RateLimitError
      else if 500 \<le> s \<and> s < 600 then ServerError
      else PlatformError)"

definition message_of :: "string \<Rightarrow> json \<Rightarrow> string" where
  "message_of generic error_data =
     (case error_data of
        JObj kvs \<Rightarrow> (case map_of kvs ''message'' of Some (JStr m) \<Rightarrow> m | _ \<Rightarrow> generic)
      | _ \<Rightarrow> generic)"

definition create_error_from_response :: "string \<Rightarrow> int \<Rightarrow> json \<Rightarrow> string option \<Rightarrow> sdk_error" where
  "create_error_from_response generic code error_data req_id =
     SdkError (kind_of_status code) (message_of generic error_data) (Some code) req_id"

subsection \<open>\<^verbatim>\<open>request\<close>\<close>

definition build_url :: "string \<Rightarrow> string \<Rightarrow> string" where
  "build_url base url = rstrip CHR ''/'' base @ ''/'' @ lstrip CHR ''/'' url"

definition dict_of :: "'v pydict option \<Rightarrow> 'v pydict" where
  "dict_of d = (case d of None \<Rightarrow> [] | Some kvs \<Rightarrow> kvs)"

text \<open>The per-call header dictionary: a new dictionary, filled from the argument.\<close>

definition request_headers_of :: "kwargs \<Rightarrow> string pydict" where
  "request_headers_of kw =
     (let request_headers = [];
          request_headers =
            (if truthy_dict (headers_arg kw)
             then dict_update request_headers (dict_of (headers_arg kw))
             else request_headers);
          request_headers =
            (if truthy_dict (files kw)
             then (if dict_contains request_headers ''Content-Type''
                   then dict_del request_headers ''Content-Type''
                   else request_headers)
             else request_headers)
      in request_headers)"

text \<open>
  \<^verbatim>\<open>Session.request\<close> merges the per-call headers over the session's default headers
  (\<^verbatim>\<open>merge_setting\<close> of \<^verbatim>\<open>requests.sessions\<close>): the result starts from the session's
  headers, and every per-call pair is stored over them, case-insensitively. Section 4.3
  (step 2) of the specification describes the same merge. Preparing the body adds a
  \<^verbatim>\<open>Content-Type\<close> of its own only when the merged headers have none.
\<close>

definition merge_setting :: "string pydict \<Rightarrow> ci_dict \<Rightarrow> ci_dict" where
  "merge_setting request_setting session_setting = ci_update session_setting request_setting"

definition outgoing :: "client \<Rightarrow> string \<Rightarrow> string \<Rightarrow> kwargs \<Rightarrow> sdk_error + wire_request" where
  "outgoing c method url kw =
     (case base_url (config c) of
        None \<Rightarrow> Inl (SdkError AttributeError ''NoneType object has no attribute rstrip'' None None)
      | Some base \<Rightarrow>
          Inr \<lparr>w_method = upper method,
               w_url = build_url base url,
               w_data = data kw,
               w_json = json kw,
               w_params = params kw,
               w_headers = merge_setting (request_headers_of kw) (headers (session c)),
               w_files = files kw,
               w_timeout = of_int (timeout (config c)) / 1000\<rparr>)"

text \<open>The value of one header of the outgoing request, by case-insensitive name.\<close>

definition outgoing_header ::
  "client \<Rightarrow> string \<Rightarrow> string \<Rightarrow> kwargs \<Rightarrow> string \<Rightarrow> sdk_error + string option" where
  "outgoing_header c method url kw name =
     (case outgoing c method url kw of
        Inl e \<Rightarrow> Inl e
      | Inr w \<Rightarrow> Inr (ci_get (w_headers w) name))"

text \<open>Whether the \<^verbatim>\<open>headers\<close> argument of a call names a header, in any letter case.\<close>

definition supplies_header :: "string pydict option \<Rightarrow> string \<Rightarrow> bool" where
  "supplies_header h name = (lower name \<in> set (map (\<lambda>(k, v). lower k) (dict_of h)))"

definition error_data_of :: "response \<Rightarrow> json" where
  "error_data_of r =
     (case parsed_json r of
        Some j \<Rightarrow> j
      | None \<Rightarrow> JObj [(''message'', JStr (if resp_text r = [] then ''Unknown error'' else resp_text r))])"

text \<open>
  \<^verbatim>\<open>request\<close> returns the response or the error raised, and the client as the call
  leaves it. The \<^verbatim>\<open>except\<close> clauses are tried in the order of the source.
\<close>

definition request ::
  "string \<Rightarrow> (wire_request \<Rightarrow> transport_outcome) \<Rightarrow> client \<Rightarrow> string \<Rightarrow> string \<Rightarrow> kwargs
     \<Rightarrow> (sdk_error + response) \<times> client" where
  "request generic transport c method url kw =
     (case outgoing c method url kw of
        Inl e \<Rightarrow> (Inl e, c)
      | Inr w \<Rightarrow>
          (case transport w of
             Responded response \<Rightarrow>
               (if \<not> ok response
                then (let req_id = ci_get (resp_headers response) ''x-request-id'';
                          error_data = error_data_of response
                      in (Inl (create_error_from_response generic (status_code response)
                                 error_data req_id), c))
                else (Inr response, c))
           | Failed e msg \<Rightarrow>
               (if isinstance_Timeout e
                then (Inl (SdkError TimeoutError ''Request timeout'' None None), c)
                else if isinstance_ConnectionError e
                then (Inl (SdkError NetworkError (''Network error: '' @ msg) None None), c)
                else (Inl (SdkError NetworkError (''Request error: '' @ msg) None None), c))))"

subsection \<open>Convenience verbs and the upload helper\<close>

definition get ::
  "string \<Rightarrow> (wire_request \<Rightarrow> transport_outcome) \<Rightarrow> client \<Rightarrow> string \<Rightarrow> kwargs
     \<Rightarrow> (sdk_error + response) \<times> client" where
  "get generic transport c url kw = request generic transport c ''GET'' url kw"

definition post ::
  "string \<Rightarrow> (wire_request \<Rightarrow> transport_outcome) \<Rightarrow> client \<Rightarrow> string \<Rightarrow> kwargs
     \<Rightarrow> (sdk_error + response) \<times> client" where
  "post generic transport c url kw = request generic transport c ''POST'' url kw"

definition put ::
  "string \<Rightarrow> (wire_request \<Rightarrow> transport_outcome) \<Rightarrow> client \<Rightarrow> string \<Rightarrow> kwargs
     \<Rightarrow> (sdk_error + response) \<times> client" where
  "put generic transport c url kw = request generic transport c ''PUT'' url kw"

definition patch ::
  "string \<Rightarrow> (wire_request \<Rightarrow> transport_outcome) \<Rightarrow> client \<Rightarrow> string \<Rightarrow> kwargs
     \<Rightarrow> (sdk_error + response) \<times> client" where
  "patch generic transport c url kw = request generic transport c ''PATCH'' url kw"

definition delete ::
  "string \<Rightarrow> (wire_request \<Rightarrow> transport_outcome) \<Rightarrow> client \<Rightarrow> string \<Rightarrow> kwargs
     \<Rightarrow> (sdk_error + response) \<times> client" where
  "delete generic transport c url kw = request generic transport c ''DELETE'' url kw"

definition upload_kwargs :: "string \<Rightarrow> string pydict option \<Rightarrow> kwargs" where
  "upload_kwargs file_data additional_data =
     (let files = [(''file'', file_data)];
          data = (if truthy_dict additional_data then dict_of additional_data else [])
      in \<lparr>data = Some (DataDict data), json = None, params = None, headers_arg = None,
          files = Some files\<rparr>)"

definition upload_file ::
  "string \<Rightarrow> (wire_request \<Rightarrow> transport_outcome) \<Rightarrow> client \<Rightarrow> string \<Rightarrow> string
     \<Rightarrow> string pydict option \<Rightarrow> (sdk_error + response) \<times> client" where
  "upload_file generic transport c url file_data additional_data =
     post generic transport c url (upload_kwargs file_data additional_data)"

section \<open>The transport of the session\<close>

text \<open>
  \<^verbatim>\<open>session.request\<close> sends through the adapter mounted for the URL, and the adapter
  hands its policy to \<^verbatim>\<open>urllib3\<close>. Both are collaborators outside the repository; their
  rules are taken from their documentation and sources. One attempt on the network
  fails to connect, fails while reading, or is answered.
\<close>

datatype connect_error = NewConnectionError | ConnectTimeoutError

datatype read_error = ReadTimeoutError | ProtocolError

datatype attempt = ConnectFailed connect_error | ReadFailed read_error | Answer response

subsection \<open>The retry policy (\<^verbatim>\<open>urllib3.util.retry.Retry\<close>)\<close>

text \<open>
  A method is retryable when \<^verbatim>\<open>allowed_methods\<close> is empty or holds its upper-cased
  name. An answer is reattempted when the method is retryable and either its status
  is in \<^verbatim>\<open>status_forcelist\<close>, or retries are left, the answer has a \<^verbatim>\<open>Retry-After\<close>
  header (which the policy respects unless told otherwise, and the client does not)
  and its status is 413, 429 or 503. A connection error is reattempted for every
  method, a read error only for a retryable one. Each reattempt takes one from
  \<^verbatim>\<open>total\<close>; the policy is exhausted once \<^verbatim>\<open>total\<close> is below zero.
\<close>

definition has_retry_after :: "response \<Rightarrow> bool" where
  "has_retry_after resp = truthy_str (ci_get (resp_headers resp) ''Retry-After'')"

definition is_method_retryable :: "retry \<Rightarrow> string \<Rightarrow> bool" where
  "is_method_retryable r m = (allowed_methods r = [] \<or> upper m \<in> set (allowed_methods r))"

definition retry_after_status_codes :: "int list" where
  "retry_after_status_codes = [413, 429, 503]"

definition is_retry :: "retry \<Rightarrow> string \<Rightarrow> int \<Rightarrow> bool \<Rightarrow> bool" where
  "is_retry r m code retry_after =
     (is_method_retryable r m
      \<and> (code \<in> set (status_forcelist r)
         \<or> (total r \<noteq> 0 \<and> retry_after \<and> code \<in> set retry_after_status_codes)))"

fun reattempted :: "retry \<Rightarrow> string \<Rightarrow> attempt \<Rightarrow> bool" where
  "reattempted r m (ConnectFailed e) = True"
| "reattempted r m (ReadFailed e) = is_method_retryable r m"
| "reattempted r m (Answer resp) = is_retry r m (status_code resp) (has_retry_after resp)"

definition increment :: "retry \<Rightarrow> retry" where
  "increment r = r\<lparr>total := total r - 1\<rparr>"

definition is_exhausted :: "retry \<Rightarrow> bool" where
  "is_exhausted r = (total r < 0)"




subsection \<open>The attempts of one request (\<^verbatim>\<open>urlopen\<close>)\<close>

text \<open>
  \<^verbatim>\<open>urlopen\<close> ends with the answer, with \<^verbatim>\<open>MaxRetryError\<close> around the last failure
  once the policy is exhausted (an answer included, since \<^verbatim>\<open>raise_on_status\<close> is left
  at its default), or with the read error itself when the method is not retryable.
  \<open>net i\<close> is what attempt number \<open>i\<close> (from 0) meets; the result carries the number of
  attempts made.
\<close>

datatype urllib3_outcome = Returned response | MaxRetryError attempt | Reraised read_error

fun final_outcome :: "attempt \<Rightarrow> urllib3_outcome" where
  "final_outcome (Answer resp) = Returned resp"
| "final_outcome (ReadFailed e) = Reraised e"
| "final_outcome (ConnectFailed e) = MaxRetryError (ConnectFailed e)"

function urlopen ::
  "retry \<Rightarrow> string \<Rightarrow> (nat \<Rightarrow> attempt) \<Rightarrow> nat \<Rightarrow> urllib3_outcome \<times> nat" where
  "urlopen r m net i =
     (if reattempted r m (net i)
      then (if is_exhausted (increment r)
            then (MaxRetryError (net i), Suc i)
            else urlopen (increment r) m net (Suc i))
      else (final_outcome (net i), Suc i))"
  by pat_completeness auto
termination
  by (relation "measure (\<lambda>(r, m, net, i). nat (total r + 1))")
     (auto simp: increment_def is_exhausted_def)

declare urlopen.simps [simp del]

subsection \<open>The adapter and the session (\<^verbatim>\<open>requests\<close>)\<close>

text \<open>
  \<^verbatim>\<open>HTTPAdapter.send\<close> translates the failures of \<^verbatim>\<open>urlopen\<close>: \<^verbatim>\<open>MaxRetryError\<close> becomes
  \<^verbatim>\<open>ConnectTimeout\<close> when its reason is a connect timeout, \<^verbatim>\<open>RetryError\<close> when its
  reason is an answer, and \<^verbatim>\<open>ConnectionError\<close> otherwise, a read timeout included; a
  read timeout raised directly becomes \<^verbatim>\<open>ReadTimeout\<close>, a protocol error
  \<^verbatim>\<open>ConnectionError\<close>.
\<close>

fun adapter_send :: "urllib3_outcome \<Rightarrow> requests_exception + response" where
  "adapter_send (Returned resp) = Inr resp"
| "adapter_send (MaxRetryError (ConnectFailed ConnectTimeoutError)) = Inl ConnectTimeout"
| "adapter_send (MaxRetryError (ConnectFailed NewConnectionError)) = Inl ConnectionError"
| "adapter_send (MaxRetryError (ReadFailed e)) = Inl ConnectionError"
| "adapter_send (MaxRetryError (Answer resp)) = Inl RetryError"
| "adapter_send (Reraised ReadTimeoutError) = Inl ReadTimeout"
| "adapter_send (Reraised ProtocolError) = Inl ConnectionError"

text \<open>
  A new session has adapters for the prefixes \<^verbatim>\<open>https://\<close> and \<^verbatim>\<open>http://\<close> and no
  other; the one whose prefix starts the lower-cased URL is used, and a URL that
  neither starts is refused with \<^verbatim>\<open>InvalidSchema\<close>.
\<close>

definition get_adapter :: "session \<Rightarrow> string \<Rightarrow> retry option" where
  "get_adapter s u =
     (if lower (take 8 u) = ''https://'' then adapters s ''https://''
      else if lower (take 7 u) = ''http://'' then adapters s ''http://''
      else None)"

text \<open>
  The network as the session meets it: what each attempt of a request meets, and the
  text \<^verbatim>\<open>str(e)\<close> of the exception the library raises for the request. Answers are
  taken as final; redirects are not followed.
\<close>

record network =
  meets :: "wire_request \<Rightarrow> nat \<Rightarrow> attempt"
  describe :: "wire_request \<Rightarrow> requests_exception \<Rightarrow> string"

definition session_transport :: "session \<Rightarrow> network \<Rightarrow> wire_request \<Rightarrow> transport_outcome" where
  "session_transport s net w =
     (case get_adapter s (w_url w) of
        None \<Rightarrow> Failed InvalidSchema (describe net w InvalidSchema)
      | Some r \<Rightarrow>
          (case adapter_send (fst (urlopen r (w_method w) (meets net w) 0)) of
             Inr resp \<Rightarrow> Responded resp
           | Inl e \<Rightarrow> Failed e (describe net w e)))"

text \<open>The policy that \<^verbatim>\<open>_create_session\<close> builds, by name.\<close>

definition retry_strategy :: "sdk_configuration \<Rightarrow> retry" where
  "retry_strategy cfg =
     \<lparr>total = retries cfg,
      backoff_factor = of_int (retry_delay cfg) / 1000,
      status_forcelist = [429, 500, 502, 503, 504],
      allowed_methods = [''HEAD'', ''GET'', ''PUT'', ''DELETE'', ''OPTIONS'', ''TRACE'', ''POST'']\<rparr>"

definition retryable_verbs :: "string set" where
  "retryable_verbs = {''GET'', ''HEAD'', ''PUT'', ''DELETE'', ''OPTIONS'', ''TRACE'', ''POST''}"

section \<open>Example values\<close>

text \<open>A new \<^verbatim>\<open>requests.Session\<close> with the default headers of the library.\<close>

definition new_session :: session where
  "new_session =
     \<lparr>headers = ci_update Map.empty
                  [(''User-Agent'', ''python-requests/2.31.0''),
                   (''Accept-Encoding'', ''gzip, deflate''),
                   (''Accept'', ''*/*''),
                   (''Connection'', ''keep-alive'')],
      adapters = Map.empty\<rparr>"

definition example_config :: sdk_configuration where
  "example_config =
     \<lparr>api_key = Some ''secret'', oauth = None, jwt = None, base_url = None,
      environment = Some ''staging'', timeout = 30000, retries = 3, retry_delay = 1000\<rparr>"

definition anonymous_config :: sdk_configuration where
  "anonymous_config = example_config\<lparr>api_key := None\<rparr>"

definition example_client :: client where
  "example_client =
     \<lparr>config = example_config\<lparr>base_url := Some ''https://api.example.com''\<rparr>,
      session = create_session new_session example_config\<rparr>"


text \<open>A client configured with a JWT token and no API key.\<close>

definition jwt_only_config :: sdk_configuration where
  "jwt_only_config =
     example_config\<lparr>api_key := None, jwt := Some \<lparr>token = Some ''jwt-token''\<rparr>,
                    base_url := Some ''https://api.example.com''\<rparr>"

definition jwt_client :: client where
  "jwt_client = \<lparr>config = jwt_only_config, session = create_session new_session jwt_only_config\<rparr>"

definition no_kwargs :: kwargs where
  "no_kwargs = \<lparr>data = None, json = None, params = None, headers_arg = None, files = None\<rparr>"

definition always :: "transport_outcome \<Rightarrow> wire_request \<Rightarrow> transport_outcome" where
  "always out w = out"

definition not_found_response :: response where
  "not_found_response =
     \<lparr>status_code = 404,
      resp_headers = ci_update Map.empty [(''x-request-id'', ''abc123'')],
      resp_text = ''{\"message\":\"not found\"}'',
      parsed_json = Some (JObj [(''message'', JStr ''not found'')])\<rparr>"

definition not_modified_response :: response where
  "not_modified_response =
     \<lparr>status_code = 304, resp_headers = Map.empty, resp_text = [], parsed_json = None\<rparr>"

definition created_response :: response where
  "created_response =
     \<lparr>status_code = 201,
      resp_headers = ci_update Map.empty [(''Content-Type'', ''application/json'')],
      resp_text = ''{\"id\":\"d1\"}'',
      parsed_json = Some (JObj [(''id'', JStr ''d1'')])\<rparr>"

definition unavailable_response :: response where
  "unavailable_response =
     \<lparr>status_code = 503,
      resp_headers = ci_update Map.empty [(''x-request-id'', ''abc124'')],
      resp_text = ''{\"message\":\"unavailable\"}'',
      parsed_json = Some (JObj [(''message'', JStr ''unavailable'')])\<rparr>"

text \<open>
  Networks: one that answers every attempt with the same response, one on which no
  attempt is answered within the timeout, and one on which every attempt fails, by
  status 503 or by a refused connection.
\<close>

definition answering :: "response \<Rightarrow> network" where
  "answering resp =
     \<lparr>meets = (\<lambda>w i. Answer resp), describe = (\<lambda>w e. ''Max retries exceeded'')\<rparr>"

definition stalled :: network where
  "stalled =
     \<lparr>meets = (\<lambda>w i. ReadFailed ReadTimeoutError), describe = (\<lambda>w e. ''Read timed out.'')\<rparr>"

definition failing_attempts :: "nat \<Rightarrow> attempt" where
  "failing_attempts i =
     (if even i then Answer unavailable_response else ConnectFailed NewConnectionError)"

definition failing_network :: network where
  "failing_network =
     \<lparr>meets = (\<lambda>w. failing_attempts), describe = (\<lambda>w e. ''Max retries exceeded'')\<rparr>"

section \<open>Properties of the URL join\<close>

lemma rstrip_decomp: "\<exists>n. s = rstrip c s @ replicate n c"
proof -
  let ?t = "takeWhile (\<lambda>x. x = c) (rev s)"
  let ?d = "dropWhile (\<lambda>x. x = c) (rev s)"
  have "s = rev (rev s)" by simp
  also have "\<dots> = rev (?t @ ?d)" by (simp only: takeWhile_dropWhile_id)
  also have "\<dots> = rev ?d @ rev ?t" by (rule rev_append)
  finally have a: "s = rstrip c s @ rev ?t" by (simp only: rstrip_def)
  have "\<forall>x\<in>set ?t. x = c" by (auto dest: set_takeWhileD)
  then have "?t = replicate (length ?t) c" by (simp add: replicate_length_same)
  then have "rev ?t = replicate (length ?t) c" by (metis rev_replicate)
  with a show ?thesis by metis
qed

lemma lstrip_decomp: "\<exists>n. s = replicate n c @ lstrip c s"
proof -
  let ?t = "takeWhile (\<lambda>x. x = c) s"
  have a: "s = ?t @ lstrip c s" by (simp add: lstrip_def)
  have "\<forall>x\<in>set ?t. x = c" by (auto dest: set_takeWhileD)
  then have "?t = replicate (length ?t) c" by (simp add: replicate_length_same)
  with a show ?thesis by metis
qed

lemma lstrip_no_start: "\<not> starts_with c (lstrip c s)"
proof (cases "dropWhile (\<lambda>x. x = c) s")
  case Nil
  show ?thesis unfolding starts_with_def lstrip_def Nil by simp
next
  case (Cons y ys)
  then have "y \<noteq> c" by (simp add: dropWhile_eq_Cons_conv)
  then show ?thesis unfolding starts_with_def lstrip_def Cons by simp
qed

lemma rstrip_no_end: "\<not> ends_with c (rstrip c s)"
  unfolding ends_with_def rstrip_def rev_rev_ident
  using lstrip_no_start [of c "rev s"] by (simp add: lstrip_def)

lemma example_base: "base_url (config example_client) = Some ''https://api.example.com''"
  by (simp add: example_client_def)

text \<open>
  Claim C8. For every base URL and every relative path, \<^verbatim>\<open>request\<close> sends the URL made
  of the base without its trailing slashes, one slash, and the path without its
  leading slashes: the left part does not end with a slash and the right part does
  not start with one, so exactly one slash separates them, whether or not the base
  ended with slashes or the path started with them.
\<close>

theorem request_url_one_slash:
  assumes "base_url (config c) = Some base"
  shows "\<exists>w n k. outgoing c method url kw = Inr w
           \<and> w_url w = rstrip CHR ''/'' base @ ''/'' @ lstrip CHR ''/'' url
           \<and> base = rstrip CHR ''/'' base @ replicate n CHR ''/''
           \<and> url = replicate k CHR ''/'' @ lstrip CHR ''/'' url
           \<and> \<not> ends_with CHR ''/'' (rstrip CHR ''/'' base)
           \<and> \<not> starts_with CHR ''/'' (lstrip CHR ''/'' url)"
proof -
  obtain n where n: "base = rstrip CHR ''/'' base @ replicate n CHR ''/''"
    using rstrip_decomp by blast
  obtain k where k: "url = replicate k CHR ''/'' @ lstrip CHR ''/'' url"
    using lstrip_decomp by blast
  from assms have "\<exists>w. outgoing c method url kw = Inr w
       \<and> w_url w = rstrip CHR ''/'' base @ ''/'' @ lstrip CHR ''/'' url"
    by (simp add: outgoing_def build_url_def)
  with n k show ?thesis using rstrip_no_end lstrip_no_start by blast
qed

theorem request_url_one_slash_witness:
  "\<exists>w. outgoing example_client ''get'' ''//v1/documents'' no_kwargs = Inr w
       \<and> w_url w = ''https://api.example.com/v1/documents''"
proof -
  from request_url_one_slash [OF example_base, of "''get''" "''//v1/documents''" no_kwargs]
  obtain w where "outgoing example_client ''get'' ''//v1/documents'' no_kwargs = Inr w"
    and "w_url w = rstrip CHR ''/'' ''https://api.example.com'' @ ''/'' @ lstrip CHR ''/'' ''//v1/documents''"
    by blast
  then show ?thesis by (simp add: rstrip_def lstrip_def)
qed

section \<open>Properties of construction\<close>


lemma init_fields:
  assumes "init session0 cfg = Inr c"
  shows "\<exists>cfg' b. config c = cfg' \<and> session c = create_session session0 cfg'
     \<and> retries cfg' = retries cfg \<and> retry_delay cfg' = retry_delay cfg
     \<and> timeout cfg' = timeout cfg \<and> base_url cfg' = Some b"
  using assms
  by (auto simp: init_def validate_config_def truthy_str_def split: if_splits option.splits)

text \<open>
  Claim C9. Construction from a configuration with a credential succeeds, and an
  empty (or absent) base URL is resolved from the environment by the table of three
  entries, development, staging and production; every other environment, and an
  absent one, gives the URL of production; a non-empty base URL stays as it is. No
  other field of the configuration changes.
\<close>

theorem init_resolves_base_url:
  assumes "truthy_str (api_key cfg) \<or> truthy_obj (oauth cfg) \<or> truthy_obj (jwt cfg)"
  shows "\<exists>c. init session0 cfg = Inr c
    \<and> config c = cfg\<lparr>base_url :=
           (if truthy_str (base_url cfg) then base_url cfg
            else if environment cfg = Some ''development''
              then Some ''https://api-dev.docusign-alternative.com''
            else if environment cfg = Some ''staging''
              then Some ''https://api-staging.docusign-alternative.com''
            else Some ''https://api.docusign-alternative.com'')\<rparr>
    \<and> session c = create_session session0 (config c)"
proof (cases "truthy_str (base_url cfg)")
  case True
  with assms show ?thesis
    by (auto simp: init_def validate_config_def)
next
  case False
  have "dict_get base_urls (environment cfg) production_url =
          (if environment cfg = Some ''development''
              then ''https://api-dev.docusign-alternative.com''
            else if environment cfg = Some ''staging''
              then ''https://api-staging.docusign-alternative.com''
            else ''https://api.docusign-alternative.com'')"
    by (cases "environment cfg") (auto simp: dict_get_def base_urls_def production_url_def)
  with False assms show ?thesis
    by (auto simp: init_def validate_config_def)
qed

theorem init_resolves_base_url_witness:
  "\<exists>c. init new_session example_config = Inr c
     \<and> base_url (config c) = Some ''https://api-staging.docusign-alternative.com''
     \<and> api_key (config c) = Some ''secret''"
proof -
  have k: "truthy_str (api_key example_config) \<or> truthy_obj (oauth example_config)
            \<or> truthy_obj (jwt example_config)"
    by (simp add: example_config_def truthy_str_def)
  from init_resolves_base_url [OF k, of new_session]
  obtain c where i: "init new_session example_config = Inr c"
    and c: "config c = example_config\<lparr>base_url :=
           (if truthy_str (base_url example_config) then base_url example_config
            else if environment example_config = Some ''development''
              then Some ''https://api-dev.docusign-alternative.com''
            else if environment example_config = Some ''staging''
              then Some ''https://api-staging.docusign-alternative.com''
            else Some ''https://api.docusign-alternative.com'')\<rparr>"
    by (elim exE conjE) (rule that; assumption)
  from c have "base_url (config c) = Some ''https://api-staging.docusign-alternative.com''
     \<and> api_key (config c) = Some ''secret''"
    by (simp add: example_config_def truthy_str_def)
  with i show ?thesis by blast
qed

text \<open>
  Claim C5. When none of the API key, the OAuth configuration and the JWT
  configuration is present, validation fails with \<^verbatim>\<open>ConfigurationError\<close> and
  construction ends with that error, whatever session object the library would have
  handed out: the session is never created and nothing is sent.
\<close>

theorem init_without_credentials:
  assumes "api_key cfg = None" and "oauth cfg = None" and "jwt cfg = None"
  shows "validate_config cfg =
           Inl (SdkError ConfigurationError
                  ''API key, OAuth configuration, or JWT token is required'' None None)
         \<and> init session0 cfg =
           Inl (SdkError ConfigurationError
                  ''API key, OAuth configuration, or JWT token is required'' None None)"
  using assms by (simp add: init_def validate_config_def truthy_str_def truthy_obj_def)

theorem init_without_credentials_witness:
  "init new_session anonymous_config =
           Inl (SdkError ConfigurationError
                  ''API key, OAuth configuration, or JWT token is required'' None None)"
  using init_without_credentials [of anonymous_config new_session]
  by (simp add: anonymous_config_def example_config_def)

section \<open>Properties of the request pipeline\<close>

lemma outgoing_example_defined:
  "\<exists>w. outgoing example_client m u kw = Inr w"
  by (simp add: outgoing_def example_client_def)

lemma always_eq: "always out w = out"
  by (simp add: always_def)

text \<open>
  Claim C3. If the transport answers a call with a response whose status code is
  any 2xx, \<^verbatim>\<open>request\<close> returns that very response, with its status, headers and body,
  and raises nothing.
\<close>

theorem request_returns_success:
  assumes "outgoing c method url kw = Inr w"
    and "transport w = Responded r"
    and "200 \<le> status_code r" and "status_code r < 300"
  shows "request generic transport c method url kw = (Inr r, c)"
  using assms by (simp add: request_def ok_def)

theorem request_returns_success_witness:
  "request ''error'' (always (Responded created_response)) example_client ''POST''
     ''/v1/documents'' no_kwargs = (Inr created_response, example_client)"
proof -
  obtain w where w: "outgoing example_client ''POST'' ''/v1/documents'' no_kwargs = Inr w"
    using outgoing_example_defined by blast
  show ?thesis
    by (rule request_returns_success
          [where transport = "always (Responded created_response)", OF w always_eq])
       (simp_all add: created_response_def)
qed

text \<open>
  The \<^verbatim>\<open>except\<close> clauses of \<^verbatim>\<open>request\<close> dispatch on the class of the library's
  exception, in the order of the source.
\<close>

lemma request_transport_failure:
  assumes "outgoing c method url kw = Inr w" and "transport w = Failed e msg"
  shows "request generic transport c method url kw =
     (Inl (if e \<in> {Timeout, ConnectTimeout, ReadTimeout}
           then SdkError TimeoutError ''Request timeout'' None None
           else if e \<in> {ConnectionError, ProxyError, SSLError}
           then SdkError NetworkError (''Network error: '' @ msg) None None
           else SdkError NetworkError (''Request error: '' @ msg) None None), c)"
  using assms by (cases e) (simp_all add: request_def)

text \<open>
  Claim C10. No call of \<^verbatim>\<open>request\<close>, of a convenience verb or of \<^verbatim>\<open>upload_file\<close>
  changes the client: the stored configuration and the session, its default headers
  included, are after the call what they were before it, whether the call returns or
  raises. The removal of \<^verbatim>\<open>Content-Type\<close> works on the per-call dictionary only.
\<close>

theorem request_frame:
  "snd (request generic transport c method url kw) = c
   \<and> snd (get generic transport c url kw) = c
   \<and> snd (post generic transport c url kw) = c
   \<and> snd (put generic transport c url kw) = c
   \<and> snd (patch generic transport c url kw) = c
   \<and> snd (delete generic transport c url kw) = c
   \<and> snd (upload_file generic transport c url file_data additional_data) = c"
proof -
  have "snd (request generic transport c m u k) = c" for m u k
    by (simp add: request_def Let_def split: sum.split transport_outcome.split)
  then show ?thesis
    by (simp add: get_def post_def put_def patch_def delete_def upload_file_def)
qed

section \<open>Properties of the authorization header\<close>

lemma ci_update_untouched:
  "key \<notin> set (map (\<lambda>(k, v). lower k) kvs) \<Longrightarrow> ci_update m kvs key = m key"
proof (induction kvs arbitrary: m)
  case Nil
  then show ?case by (simp add: ci_update_def)
next
  case (Cons kv kvs)
  obtain k v where kv: "kv = (k, v)" by (cases kv)
  from Cons.prems kv have a: "lower k \<noteq> key" and b: "key \<notin> set (map (\<lambda>(k, v). lower k) kvs)"
    by auto
  have "ci_update m (kv # kvs) key = ci_update (ci_set m k v) kvs key"
    by (simp add: ci_update_def kv)
  also have "\<dots> = ci_set m k v key" by (rule Cons.IH [OF b])
  also have "\<dots> = m key" using a by (simp add: ci_set_def)
  finally show ?case .
qed

lemma dict_set_keys: "fst ` set (dict_set d k v) = insert k (fst ` set d)"
proof (induction d)
  case Nil
  show ?case by simp
next
  case (Cons a d)
  obtain k' v' where a: "a = (k', v')" by (cases a)
  show ?case
  proof (cases "k' = k")
    case True
    then show ?thesis by (simp add: a)
  next
    case False
    then show ?thesis using Cons.IH by (simp add: a insert_commute)
  qed
qed

lemma dict_update_keys:
  "fst ` set (dict_update d other) = fst ` set d \<union> fst ` set other"
proof (induction other arbitrary: d)
  case Nil
  then show ?case by (simp add: dict_update_def)
next
  case (Cons kv other)
  obtain k v where kv: "kv = (k, v)" by (cases kv)
  have "dict_update d (kv # other) = dict_update (dict_set d k v) other"
    by (simp add: dict_update_def kv)
  then have "fst ` set (dict_update d (kv # other))
      = insert k (fst ` set d) \<union> fst ` set other"
    using Cons.IH [of "dict_set d k v"] by (simp only: dict_set_keys)
  then show ?case by (simp add: kv)
qed

lemma dict_del_keys: "fst ` set (dict_del d k) \<subseteq> fst ` set d"
  by (auto simp: dict_del_def)

lemma request_headers_keys:
  "fst ` set (request_headers_of kw) \<subseteq> fst ` set (dict_of (headers_arg kw))"
proof -
  let ?h = "if truthy_dict (headers_arg kw) then dict_update [] (dict_of (headers_arg kw)) else []"
  have a: "fst ` set ?h \<subseteq> fst ` set (dict_of (headers_arg kw))"
    by (cases "truthy_dict (headers_arg kw)") (simp_all add: dict_update_keys)
  have "fst ` set (request_headers_of kw) \<subseteq> fst ` set ?h"
  proof (cases "truthy_dict (files kw) \<and> dict_contains ?h ''Content-Type''")
    case True
    then have "request_headers_of kw = dict_del ?h ''Content-Type''"
      by (simp add: request_headers_of_def Let_def)
    then show ?thesis using dict_del_keys [of ?h "''Content-Type''"] by simp
  next
    case False
    then have "request_headers_of kw = ?h"
      by (auto simp: request_headers_of_def Let_def)
    then show ?thesis by simp
  qed
  with a show ?thesis by blast
qed

lemma request_headers_no_supply:
  assumes "\<not> supplies_header (headers_arg kw) name"
  shows "lower name \<notin> set (map (\<lambda>(k, v). lower k) (request_headers_of kw))"
proof
  assume "lower name \<in> set (map (\<lambda>(k, v). lower k) (request_headers_of kw))"
  then obtain k v where kv: "(k, v) \<in> set (request_headers_of kw)" and l: "lower k = lower name"
    by auto
  from kv have "k \<in> fst ` set (request_headers_of kw)" by force
  with request_headers_keys have "k \<in> fst ` set (dict_of (headers_arg kw))" by blast
  then obtain v' where "(k, v') \<in> set (dict_of (headers_arg kw))" by auto
  with l have "supplies_header (headers_arg kw) name"
    by (force simp: supplies_header_def)
  with assms show False by simp
qed

lemma outgoing_header_session:
  assumes "base_url (config c) = Some base"
    and "\<not> supplies_header (headers_arg kw) name"
  shows "outgoing_header c method url kw name = Inr (ci_get (headers (session c)) name)"
  using assms ci_update_untouched [OF request_headers_no_supply [OF assms(2)], of "headers (session c)"]
  by (simp add: outgoing_header_def outgoing_def merge_setting_def ci_get_def)

lemma lower_authorization: "lower ''Authorization'' = ''authorization''"
  by (simp add: lower_def lower_char_def)

text \<open>
  The merged headers after an auth mutation, for a call that does not itself supply an
  \<^verbatim>\<open>Authorization\<close> header: none after \<^verbatim>\<open>clear_auth\<close>, \<^verbatim>\<open>Bearer tok\<close> after
  \<^verbatim>\<open>set_auth_token\<close>. Credentials that the library itself adds from the URL or from a
  netrc file are outside these headers.
\<close>

lemma auth_mutation:
  assumes "base_url (config c) = Some base"
    and "\<not> supplies_header (headers_arg kw) ''Authorization''"
  shows "api_key (config (clear_auth c)) = None
    \<and> ci_get (headers (session (clear_auth c))) ''Authorization'' = None
    \<and> outgoing_header (clear_auth c) method url kw ''Authorization'' = Inr None
    \<and> api_key (config (set_auth_token c tok)) = Some tok
    \<and> ci_get (headers (session (set_auth_token c tok))) ''Authorization'' = Some (''Bearer '' @ tok)
    \<and> outgoing_header (set_auth_token c tok) method url kw ''Authorization''
        = Inr (Some (''Bearer '' @ tok))"
proof -
  have b1: "base_url (config (clear_auth c)) = Some base"
    using assms(1) by (simp add: clear_auth_def)
  have b2: "base_url (config (set_auth_token c tok)) = Some base"
    using assms(1) by (simp add: set_auth_token_def)
  have h1: "ci_get (headers (session (clear_auth c))) ''Authorization'' = None"
    by (cases "headers (session c) (lower ''Authorization'')")
       (simp_all add: clear_auth_def ci_get_def ci_del_def ci_contains_def)
  have h2: "ci_get (headers (session (set_auth_token c tok))) ''Authorization'' = Some (''Bearer '' @ tok)"
    by (simp add: set_auth_token_def ci_get_def ci_set_def)
  show ?thesis
    using outgoing_header_session [OF b1 assms(2), of "method" "url"]
      outgoing_header_session [OF b2 assms(2), of "method" "url"] h1 h2
    by (simp add: clear_auth_def set_auth_token_def)
qed

lemma init_jwt_client: "init new_session jwt_only_config = Inr jwt_client"
  by (simp add: init_def validate_config_def jwt_only_config_def jwt_client_def example_config_def
        truthy_str_def truthy_obj_def)

text \<open>
  Claim C7 does not hold of the code. \<^verbatim>\<open>clear_auth\<close> resets the API key and removes
  the session's \<^verbatim>\<open>Authorization\<close> header, but a client configured with a JWT token
  keeps that token in its configuration; \<^verbatim>\<open>set_auth_token\<close> likewise stores the new
  token as API key next to the JWT token it leaves in place.
\<close>

theorem clear_auth_keeps_jwt:
  "jwt (config jwt_client) = Some \<lparr>token = Some ''jwt-token''\<rparr>
   \<and> ci_get (headers (session jwt_client)) ''Authorization'' = Some ''Bearer jwt-token''
   \<and> api_key (config (clear_auth jwt_client)) = None
   \<and> ci_get (headers (session (clear_auth jwt_client))) ''Authorization'' = None
   \<and> jwt (config (clear_auth jwt_client)) = Some \<lparr>token = Some ''jwt-token''\<rparr>
   \<and> jwt (config (set_auth_token jwt_client ''X'')) = Some \<lparr>token = Some ''jwt-token''\<rparr>"
  by (simp add: jwt_client_def jwt_only_config_def example_config_def clear_auth_def
        set_auth_token_def create_session_def Let_def new_session_def truthy_str_def truthy_obj_def
        jwt_token_def fmt_def ci_get_def ci_del_def ci_contains_def ci_update_def ci_set_def
        lower_def lower_char_def)

section \<open>Properties of the upload helper\<close>

lemma create_session_content_type:
  "ci_get (headers (create_session session0 cfg)) ''Content-Type'' = Some ''application/json''"
  by (simp add: create_session_def Let_def ci_get_def ci_update_def ci_set_def lower_def
        lower_char_def)

lemma upload_kwargs_no_headers:
  "\<not> supplies_header (headers_arg (upload_kwargs file_data additional_data)) name"
  by (simp add: upload_kwargs_def Let_def supplies_header_def dict_of_def)

lemma upload_file_content_type:
  assumes "init session0 cfg = Inr c"
  shows "outgoing_header c ''POST'' url (upload_kwargs file_data additional_data) ''Content-Type''
           = Inr (Some ''application/json'')"
proof -
  from init_fields [OF assms] obtain cfg' b where
    c: "session c = create_session session0 cfg'" and b: "base_url (config c) = Some b"
    by auto
  show ?thesis
    using outgoing_header_session [OF b upload_kwargs_no_headers, of "''POST''" url file_data additional_data "''Content-Type''"]
    by (simp add: c create_session_content_type)
qed

text \<open>
  Claim C2 does not hold of the code. \<^verbatim>\<open>upload_file\<close> posts with a files payload and no
  per-call headers; the per-call dictionary has no \<^verbatim>\<open>Content-Type\<close> to remove, and the
  session's default \<^verbatim>\<open>Content-Type: application/json\<close> is merged into the outgoing
  request. The lemma above shows it for every client that construction returns; the
  theorem evaluates one upload.
\<close>

theorem upload_file_sends_json_content_type:
  "outgoing_header example_client ''POST'' ''/v1/documents''
     (upload_kwargs ''%PDF-1.7'' None) ''Content-Type'' = Inr (Some ''application/json'')"
  by (simp add: outgoing_header_def outgoing_def example_client_def upload_kwargs_def
        request_headers_of_def truthy_dict_def dict_contains_def merge_setting_def
        create_session_def Let_def new_session_def example_config_def truthy_str_def fmt_def
        ci_get_def ci_update_def ci_set_def lower_def lower_char_def)

section \<open>Properties of the retry policy\<close>

lemma urlopen_final:
  "\<not> reattempted r m (net i) \<Longrightarrow> urlopen r m net i = (final_outcome (net i), Suc i)"
  by (subst urlopen.simps) simp

lemma urlopen_exhausted:
  "reattempted r m (net i) \<Longrightarrow> total r \<le> 0
     \<Longrightarrow> urlopen r m net i = (MaxRetryError (net i), Suc i)"
  by (subst urlopen.simps) (simp add: is_exhausted_def increment_def)

lemma urlopen_again:
  "reattempted r m (net i) \<Longrightarrow> 0 < total r
     \<Longrightarrow> urlopen r m net i = urlopen (increment r) m net (Suc i)"
  by (subst urlopen.simps) (simp add: is_exhausted_def increment_def)



lemma urlopen_all_fail:
  assumes "0 \<le> total r" and "is_method_retryable r m"
    and "\<forall>j. (\<exists>e. net j = ConnectFailed e) \<or> (\<exists>e. net j = ReadFailed e)
           \<or> (\<exists>resp. net j = Answer resp \<and> status_code resp \<in> set (status_forcelist r))"
  shows "urlopen r m net i = (MaxRetryError (net (i + nat (total r))), Suc (i + nat (total r)))"
  using assms
proof (induction r m net i rule: urlopen.induct)
  case (1 r m net i)
  have re: "reattempted r m (net i)"
  proof -
    from "1.prems"(3) consider e where "net i = ConnectFailed e" | e where "net i = ReadFailed e"
      | resp where "net i = Answer resp" "status_code resp \<in> set (status_forcelist r)"
      by blast
    then show ?thesis
      using "1.prems"(2) by cases (simp_all add: is_retry_def)
  qed
  show ?case
  proof (cases "0 < total r")
    case True
    then have ne: "\<not> is_exhausted (increment r)" and t: "0 \<le> total (increment r)"
      by (simp_all add: is_exhausted_def increment_def)
    have mr: "is_method_retryable (increment r) m"
      using "1.prems"(2) by (simp add: is_method_retryable_def increment_def)
    have fl: "\<forall>j. (\<exists>e. net j = ConnectFailed e) \<or> (\<exists>e. net j = ReadFailed e)
           \<or> (\<exists>resp. net j = Answer resp
                \<and> status_code resp \<in> set (status_forcelist (increment r)))"
      using "1.prems"(3) by (simp add: increment_def)
    have "urlopen r m net i = urlopen (increment r) m net (Suc i)"
      using re True by (rule urlopen_again)
    also have "\<dots> = (MaxRetryError (net (Suc i + nat (total (increment r)))),
                      Suc (Suc i + nat (total (increment r))))"
      using "1.IH" re ne t mr fl by blast
    also have "Suc i + nat (total (increment r)) = i + nat (total r)"
      using True by (simp add: increment_def)
    finally show ?thesis .
  next
    case False
    with "1.prems"(1) have z: "total r = 0" by simp
    then have "urlopen r m net i = (MaxRetryError (net i), Suc i)"
      using re by (simp add: urlopen_exhausted)
    with z show ?thesis by simp
  qed
qed



section \<open>Properties of the pipeline over the session's transport\<close>

lemma create_session_adapters:
  "adapters (create_session session0 cfg) ''https://'' = Some (retry_strategy cfg)
   \<and> adapters (create_session session0 cfg) ''http://'' = Some (retry_strategy cfg)"
  by (simp add: create_session_def Let_def retry_strategy_def)

lemma retry_strategy_retryable:
  "is_method_retryable (retry_strategy cfg) m = (upper m \<in> retryable_verbs)"
  by (auto simp: is_method_retryable_def retry_strategy_def retryable_verbs_def)


lemma upper_get: "upper ''GET'' = ''GET''"
  by (simp add: upper_def upper_char_def)


lemma example_adapter:
  "get_adapter (session example_client) (build_url ''https://api.example.com'' u)
     = Some (retry_strategy example_config)"
  by (simp add: get_adapter_def example_client_def create_session_adapters build_url_def
        rstrip_def lower_def lower_char_def)

lemma example_outgoing:
  "\<exists>w. outgoing example_client m u kw = Inr w \<and> w_method w = upper m
      \<and> w_url w = build_url ''https://api.example.com'' u"
  by (simp add: outgoing_def example_client_def)

lemma session_transport_returns:
  assumes "get_adapter s (w_url w) = Some r"
    and "meets net w 0 = Answer resp"
    and "\<not> reattempted r (w_method w) (Answer resp)"
  shows "session_transport s net w = Responded resp"
  using assms by (simp add: session_transport_def urlopen_final)

lemma not_found_not_reattempted:
  "\<not> reattempted (retry_strategy cfg) m (Answer not_found_response)"
  by (simp add: is_retry_def retry_strategy_def not_found_response_def has_retry_after_def
        retry_after_status_codes_def)

lemma not_modified_not_reattempted:
  "\<not> reattempted (retry_strategy cfg) m (Answer not_modified_response)"
  by (simp add: is_retry_def retry_strategy_def not_modified_response_def has_retry_after_def
        retry_after_status_codes_def)

text \<open>
  Claim C1, as stated, fails: a response with status 304 is not 2xx, the session
  returns it, and \<^verbatim>\<open>request\<close> returns it as a success, since \<^verbatim>\<open>response.ok\<close> is false
  only from 400 to 599.
\<close>

theorem request_returns_not_modified:
  "status_code not_modified_response = 304
   \<and> request ''error'' (session_transport (session example_client) (answering not_modified_response))
        example_client ''GET'' ''/v1/documents'' no_kwargs
      = (Inr not_modified_response, example_client)"
proof -
  obtain w where w: "outgoing example_client ''GET'' ''/v1/documents'' no_kwargs = Inr w"
    and u: "w_url w = build_url ''https://api.example.com'' ''/v1/documents''"
    using example_outgoing by blast
  have a: "get_adapter (session example_client) (w_url w) = Some (retry_strategy example_config)"
    unfolding u by (rule example_adapter)
  have t: "session_transport (session example_client) (answering not_modified_response) w
             = Responded not_modified_response"
    by (rule session_transport_returns [OF a _ not_modified_not_reattempted])
       (simp add: answering_def)
  have s: "status_code not_modified_response = 304" by (simp add: not_modified_response_def)
  show ?thesis using w t s by (simp add: request_def ok_def)
qed

text \<open>
  Claim C1, amended. For every response that the session returns to \<^verbatim>\<open>request\<close> and
  whose status code is from 400 to 599, \<^verbatim>\<open>request\<close> raises one error and returns no
  response: its kind follows the mapping of the error taxonomy, its request id is
  the \<^verbatim>\<open>x-request-id\<close> header of the response when there is one and is absent
  otherwise, and its message is read from the parsed JSON body, or from the body
  \<^verbatim>\<open>{message: text or "Unknown error"}\<close> when the body is not JSON. A response with any
  other status code that the session returns is returned by \<^verbatim>\<open>request\<close>.
\<close>

theorem request_raises_on_error_status:
  assumes "outgoing c method url kw = Inr w"
    and "session_transport (session c) net w = Responded r"
  shows "request generic (session_transport (session c) net) c method url kw =
     (if 400 \<le> status_code r \<and> status_code r < 600
      then (Inl (SdkError (kind_of_status (status_code r))
                   (case parsed_json r of
                      Some j \<Rightarrow> message_of generic j
                    | None \<Rightarrow> if resp_text r = [] then ''Unknown error'' else resp_text r)
                   (Some (status_code r))
                   (ci_get (resp_headers r) ''x-request-id'')), c)
      else (Inr r, c))"
  using assms
  by (simp add: request_def ok_def create_error_from_response_def error_data_of_def message_of_def
        split: option.split)

theorem request_raises_on_error_status_witness:
  "request ''error'' (session_transport (session example_client) (answering not_found_response))
     example_client ''GET'' ''/v1/documents'' no_kwargs
     = (Inl (SdkError NotFoundError ''not found'' (Some 404) (Some ''abc123'')), example_client)"
proof -
  obtain w where w: "outgoing example_client ''GET'' ''/v1/documents'' no_kwargs = Inr w"
    and u: "w_url w = build_url ''https://api.example.com'' ''/v1/documents''"
    using example_outgoing by blast
  have a: "get_adapter (session example_client) (w_url w) = Some (retry_strategy example_config)"
    unfolding u by (rule example_adapter)
  have t: "session_transport (session example_client) (answering not_found_response) w
             = Responded not_found_response"
    by (rule session_transport_returns [OF a _ not_found_not_reattempted])
       (simp add: answering_def)
  show ?thesis
    using request_raises_on_error_status [OF w t, of "''error''"]
    by (simp add: not_found_response_def kind_of_status_def message_of_def ci_get_def ci_update_def
          ci_set_def lower_def lower_char_def)
qed

text \<open>
  Answers that the retry policy consumes never reach that branch: where every attempt
  of a retryable method is answered with a status of the force list, or times out
  while reading, the session raises and \<^verbatim>\<open>request\<close> raises \<^verbatim>\<open>NetworkError\<close>.
\<close>

lemma session_transport_gives_up:
  assumes "get_adapter s (w_url w) = Some r" and "0 \<le> total r"
    and "is_method_retryable r (w_method w)"
    and "\<forall>j. (\<exists>e. meets net w j = ConnectFailed e) \<or> (\<exists>e. meets net w j = ReadFailed e)
           \<or> (\<exists>resp. meets net w j = Answer resp \<and> status_code resp \<in> set (status_forcelist r))"
  shows "session_transport s net w =
     (case adapter_send (MaxRetryError (meets net w (nat (total r)))) of
        Inr resp \<Rightarrow> Responded resp | Inl e \<Rightarrow> Failed e (describe net w e))"
  using urlopen_all_fail [OF assms(2,3,4), of 0] assms(1)
  by (simp add: session_transport_def)

lemma forcelisted_status_raises_network_error:
  assumes "outgoing c method url kw = Inr w"
    and "get_adapter (session c) (w_url w) = Some r" and "0 \<le> total r"
    and "is_method_retryable r (w_method w)"
    and "\<forall>j. \<exists>resp. meets net w j = Answer resp \<and> status_code resp \<in> set (status_forcelist r)"
  shows "request generic (session_transport (session c) net) c method url kw =
     (Inl (SdkError NetworkError (''Request error: '' @ describe net w RetryError) None None), c)"
proof -
  have f: "\<forall>j. (\<exists>e. meets net w j = ConnectFailed e) \<or> (\<exists>e. meets net w j = ReadFailed e)
           \<or> (\<exists>resp. meets net w j = Answer resp \<and> status_code resp \<in> set (status_forcelist r))"
    using assms(5) by blast
  obtain resp where "meets net w (nat (total r)) = Answer resp" using assms(5) by blast
  then have "session_transport (session c) net w = Failed RetryError (describe net w RetryError)"
    using session_transport_gives_up [OF assms(2,3,4) f] by simp
  then show ?thesis
    using request_transport_failure [OF assms(1), of "session_transport (session c) net"
        RetryError "describe net w RetryError" generic]
    by simp
qed

lemma read_timeouts_raise_network_error:
  assumes "outgoing c method url kw = Inr w"
    and "get_adapter (session c) (w_url w) = Some r" and "0 \<le> total r"
    and "is_method_retryable r (w_method w)"
    and "\<forall>j. meets net w j = ReadFailed ReadTimeoutError"
  shows "request generic (session_transport (session c) net) c method url kw =
     (Inl (SdkError NetworkError (''Network error: '' @ describe net w ConnectionError) None None), c)"
proof -
  have f: "\<forall>j. (\<exists>e. meets net w j = ConnectFailed e) \<or> (\<exists>e. meets net w j = ReadFailed e)
           \<or> (\<exists>resp. meets net w j = Answer resp \<and> status_code resp \<in> set (status_forcelist r))"
    using assms(5) by blast
  have "meets net w (nat (total r)) = ReadFailed ReadTimeoutError" using assms(5) by blast
  then have "session_transport (session c) net w
      = Failed ConnectionError (describe net w ConnectionError)"
    using session_transport_gives_up [OF assms(2,3,4) f] by simp
  then show ?thesis
    using request_transport_failure [OF assms(1), of "session_transport (session c) net"
        ConnectionError "describe net w ConnectionError" generic]
    by simp
qed

lemma unavailable_raises_network_error:
  "request ''error'' (session_transport (session example_client) (answering unavailable_response))
     example_client ''GET'' ''/v1/documents'' no_kwargs
     = (Inl (SdkError NetworkError ''Request error: Max retries exceeded'' None None),
        example_client)"
proof -
  obtain w where w: "outgoing example_client ''GET'' ''/v1/documents'' no_kwargs = Inr w"
    and m: "w_method w = upper ''GET''"
    and u: "w_url w = build_url ''https://api.example.com'' ''/v1/documents''"
    using example_outgoing by blast
  have a: "get_adapter (session example_client) (w_url w) = Some (retry_strategy example_config)"
    unfolding u by (rule example_adapter)
  have t: "0 \<le> total (retry_strategy example_config)"
    by (simp add: retry_strategy_def example_config_def)
  have r: "is_method_retryable (retry_strategy example_config) (w_method w)"
    unfolding m by (simp add: retry_strategy_retryable upper_get retryable_verbs_def)
  have s: "\<forall>j. \<exists>resp. meets (answering unavailable_response) w j = Answer resp
      \<and> status_code resp \<in> set (status_forcelist (retry_strategy example_config))"
    by (simp add: answering_def retry_strategy_def unavailable_response_def)
  show ?thesis
    using forcelisted_status_raises_network_error [OF w a t r s, of "''error''"]
    by (simp add: answering_def)
qed

text \<open>
  Claim C4 does not hold of the code. A GET whose every attempt gets no answer within
  the timeout exhausts the retry policy; the library raises \<^verbatim>\<open>ConnectionError\<close> around
  the read timeout, and \<^verbatim>\<open>request\<close> raises \<^verbatim>\<open>NetworkError\<close>, not \<^verbatim>\<open>TimeoutError\<close>.
\<close>

theorem read_timeout_raises_network_error:
  "request ''error'' (session_transport (session example_client) stalled) example_client ''GET''
     ''/v1/documents'' no_kwargs
     = (Inl (SdkError NetworkError ''Network error: Read timed out.'' None None), example_client)"
proof -
  obtain w where w: "outgoing example_client ''GET'' ''/v1/documents'' no_kwargs = Inr w"
    and m: "w_method w = upper ''GET''"
    and u: "w_url w = build_url ''https://api.example.com'' ''/v1/documents''"
    using example_outgoing by blast
  have a: "get_adapter (session example_client) (w_url w) = Some (retry_strategy example_config)"
    unfolding u by (rule example_adapter)
  have t: "0 \<le> total (retry_strategy example_config)"
    by (simp add: retry_strategy_def example_config_def)
  have r: "is_method_retryable (retry_strategy example_config) (w_method w)"
    unfolding m by (simp add: retry_strategy_retryable upper_get retryable_verbs_def)
  have s: "\<forall>j. meets stalled w j = ReadFailed ReadTimeoutError" by (simp add: stalled_def)
  show ?thesis
    using read_timeouts_raise_network_error [OF w a t r s, of "''error''"]
    by (simp add: stalled_def)
qed

section \<open>Properties of the mounted retry policy\<close>





end
